theory Spec2Isabelle
  imports Complex_Main
begin

section \<open>Python values and errors\<close>

text \<open>
  The repository is Python 2. Its floats are modelled as exact reals, its integers as
  \<open>int\<close>, and every exception the modelled code can raise is a value of \<open>error\<close>:
  a function that can raise returns \<open>error + 'a\<close>, with \<open>Inl\<close> for the exception.
\<close>

datatype error = ValueError | AttributeError | ZeroDivisionError | ParseError | TypeError
  | DatabaseError

text \<open>\<open>int(x)\<close> on a float truncates toward zero.\<close>

definition py_int :: "real \<Rightarrow> int" where
  "py_int x = (if 0 \<le> x then \<lfloor>x\<rfloor> else \<lceil>x\<rceil>)"

text \<open>
  Truthiness of an optional number, as \<open>not x\<close> reads it: \<open>None\<close> and zero are false.
\<close>

definition falsy :: "real option \<Rightarrow> bool" where
  "falsy x = (case x of None \<Rightarrow> True | Some v \<Rightarrow> v = 0)"

section \<open>stars.py: propagate\_position\<close>

text \<open>
  \<open>julian_year_difference\<close> lives in \<open>skymap.coordinates\<close>, outside the sources at hand;
  the model takes it as the parameter \<open>jyd\<close> over an arbitrary type of epochs.
  \<open>math.cos\<close> is applied to the declination as the source does (without a conversion
  to radians), and the float division raises on a zero divisor.
\<close>

definition propagate_position ::
  "('e \<Rightarrow> 'e \<Rightarrow> real) \<Rightarrow> 'e \<Rightarrow> 'e \<Rightarrow> real \<Rightarrow> real \<Rightarrow> real option \<Rightarrow> real option
     \<Rightarrow> error + (real \<times> real)" where
  "propagate_position jyd from_epoch to_epoch ra0 dec0 proper_motion_ra proper_motion_dec =
     (if falsy proper_motion_dec \<or> falsy proper_motion_ra then Inr (ra0, dec0)
      else
        let dt = jyd to_epoch from_epoch;
            pm_ra = the proper_motion_ra / 3600000;
            pm_dec = the proper_motion_dec / 3600000
        in if cos dec0 = 0 then Inl ZeroDivisionError
           else Inr (ra0 + dt * pm_ra / cos dec0, dec0 + dt * pm_dec))"

section \<open>stars.py: propagate\_position2\<close>







section \<open>mapmaker.py: the grid loops\<close>

text \<open>
  Modelled from the spec: the \<open>Map\<close> class (module \<open>skymap.map\<close>) is not among the
  sources; of it the grid loops read only the angular bounding box, the four attributes
  below (spec section 3).
\<close>

record sky_map =
  min_longitude :: real
  max_longitude :: real
  min_latitude :: real
  max_latitude :: real

text \<open>
  Python's \<open>range(start, stop, step)\<close>: ascending for a positive step, descending for a
  negative one, \<open>ValueError\<close> for step zero.
\<close>

function range_up :: "int \<Rightarrow> int \<Rightarrow> int \<Rightarrow> int list" where
  "range_up start stop step =
     (if 0 < step \<and> start < stop then start # range_up (start + step) stop step else [])"
  by pat_completeness auto
termination
  by (relation "measure (\<lambda>(start, stop, step). nat (stop - start))") auto

function range_down :: "int \<Rightarrow> int \<Rightarrow> int \<Rightarrow> int list" where
  "range_down start stop step =
     (if step < 0 \<and> stop < start then start # range_down (start + step) stop step else [])"
  by pat_completeness auto
termination
  by (relation "measure (\<lambda>(start, stop, step). nat (start - stop))") auto

declare range_up.simps [simp del] range_down.simps [simp del]

definition py_range :: "int \<Rightarrow> int \<Rightarrow> int \<Rightarrow> error + int list" where
  "py_range start stop step =
     (if step = 0 then Inl ValueError
      else if 0 < step then Inr (range_up start stop step)
      else Inr (range_down start stop step))"

text \<open>
  \<open>int(increment * math.floor(x / float(increment)))\<close>, the first value of both loops.
  The division raises for a zero increment.
\<close>

definition aligned_floor :: "int \<Rightarrow> real \<Rightarrow> error + int" where
  "aligned_floor increment x =
     (if increment = 0 then Inl ZeroDivisionError
      else Inr (py_int (real_of_int increment * real_of_int \<lfloor>x / real_of_int increment\<rfloor>)))"

text \<open>
  \<open>draw_parallels\<close> and \<open>draw_meridians\<close> return the grid values their loops visit,
  in order: each iteration maps the value with the projection and hands the curve and its
  tick labels to the figure, which are collaborators outside these sources.
\<close>

definition draw_parallels :: "sky_map \<Rightarrow> int \<Rightarrow> error + int list" where
  "draw_parallels m increment =
     (case aligned_floor increment (min_latitude m) of
        Inl e \<Rightarrow> Inl e
      | Inr min_lat \<Rightarrow> py_range min_lat (py_int (max_latitude m) + 1) increment)"

text \<open>The stop value of the meridian loop, after the source's adjustment by one.\<close>

definition meridian_stop :: "int \<Rightarrow> real \<Rightarrow> int" where
  "meridian_stop min_lon map_max_longitude =
     (let max_lon = py_int map_max_longitude
      in if max_lon - 360 < min_lon then max_lon + 1 else max_lon)"

definition draw_meridians :: "sky_map \<Rightarrow> int \<Rightarrow> error + int list" where
  "draw_meridians m increment =
     (case aligned_floor increment (min_longitude m) of
        Inl e \<Rightarrow> Inl e
      | Inr min_lon \<Rightarrow> py_range min_lon (meridian_stop min_lon (max_longitude m)) increment)"

section \<open>The catalogue store and its queries\<close>

text \<open>
  Modelled from the spec: \<open>ensure_angle_range\<close> (module \<open>skymap.geometry\<close>) is not
  among the sources. Spec section 4.1: it returns \<open>degrees mod 360\<close>, in \<open>[0, 360)\<close>.
\<close>

definition ensure_angle_range :: "real \<Rightarrow> real" where
  "ensure_angle_range degrees = degrees - 360 * real_of_int \<lfloor>degrees / 360\<rfloor>"

text \<open>
  Modelled from the spec: \<open>SphericalPoint\<close> and \<open>Line\<close> (module \<open>skymap.geometry\<close>),
  of which the code at hand uses the constructors only.
\<close>

datatype spherical_point = SphericalPoint (longitude: real) (latitude: real)

datatype line = Line spherical_point spherical_point

text \<open>
  The store is a collaborator: the code hands it an SQL text and reads rows back. The
  model keeps, of each table, the columns the two selections name. Rows holding \<open>NULL\<close>
  in a compared column satisfy no comparison and are not modelled.
\<close>

record star_row =
  magnitude :: real
  constellation :: string
  right_ascension :: real
  declination :: real

record milkyway_row =
  edge_id :: int
  ra1 :: real
  dec1 :: real
  ra2 :: real
  dec2 :: real

datatype star = Star (data: star_row)

subsection \<open>Numbers in the query text\<close>

text \<open>
  The code pastes every number with \<open>'{0}'.format(x)\<close>. For a float, Python 2 writes
  \<open>str(x)\<close>: the number rounded to 12 significant decimal digits, ties to the even
  digit. \<open>format12 x\<close> is the value of that text, the number the store compares with.
\<close>

definition round_half_even :: "real \<Rightarrow> int" where
  "round_half_even x =
     (let f = \<lfloor>x\<rfloor>; d = x - real_of_int f
      in if d < 1 / 2 then f else if 1 / 2 < d then f + 1 else if even f then f else f + 1)"

definition format12 :: "real \<Rightarrow> real" where
  "format12 x =
     (if x = 0 then 0
      else let scale = 10 powi (11 - \<lfloor>log 10 \<bar>x\<bar>\<rfloor>)
           in real_of_int (round_half_even (x * scale)) / scale)"

subsection \<open>The query text\<close>

text \<open>
  A query text is a list of symbols: its characters, and for each pasted number one
  symbol that stands for the digits of that number and carries their value.
\<close>

datatype sym = Ch char | Num real

definition chars :: "string \<Rightarrow> sym list" where
  "chars s = map Ch s"

definition quote :: char where
  "quote = CHR 0x27"

definition backslash :: char where
  "backslash = CHR 0x5C"

definition fmt :: "real \<Rightarrow> sym list" where
  "fmt x = [Num (format12 x)]"

subsection \<open>How the store reads a query text\<close>

text \<open>
  The part of SQL that the two selections write: \<open>SELECT * FROM t WHERE c\<close>, with or
  without \<open>ORDER BY column ASC\<close>, where \<open>c\<close> is built from comparisons by \<open>AND\<close>, \<open>OR\<close>
  (\<open>AND\<close> binds tighter) and brackets. A text literal sits between single quotes, a
  doubled quote inside it is one quote. Whatever lies outside this part (a backslash in a
  literal, a comment, another operator, a literal that does not end) is not read here:
  the reader gives \<open>None\<close>, and the answer is left to the store.
\<close>

definition is_letter :: "char \<Rightarrow> bool" where
  "is_letter c = (c \<in> set ''abcdefghijklmnopqrstuvwxyzABCDEFGHIJKLMNOPQRSTUVWXYZ'')"

definition is_word_char :: "char \<Rightarrow> bool" where
  "is_word_char c = (is_letter c \<or> c \<in> set ''0123456789_'')"

datatype token = Word string | Number real | Literal string
  | LessEq | GreaterEq | Equals | Open | Close | Asterisk

fun scan_word :: "sym list \<Rightarrow> string \<times> sym list" where
  "scan_word (Ch c # r) =
     (if is_word_char c then (case scan_word r of (w, r') \<Rightarrow> (c # w, r')) else ([], Ch c # r))"
| "scan_word r = ([], r)"

fun scan_literal :: "sym list \<Rightarrow> (string \<times> sym list) option" where
  "scan_literal [] = None"
| "scan_literal (Num x # r) = None"
| "scan_literal (Ch c # r) =
     (if c = quote
      then (case r of
              Ch c' # r' \<Rightarrow>
                if c' = quote then map_option (\<lambda>(s, t). (quote # s, t)) (scan_literal r')
                else Some ([], r)
            | _ \<Rightarrow> Some ([], r))
      else if c = backslash then None
      else map_option (\<lambda>(s, t). (c # s, t)) (scan_literal r))"

function lex :: "sym list \<Rightarrow> token list option" where
  "lex [] = Some []"
| "lex (Num x # r) = map_option (Cons (Number x)) (lex r)"
| "lex (Ch c # r) =
     (if c = CHR '' '' then lex r
      else if c = CHR ''('' then map_option (Cons Open) (lex r)
      else if c = CHR '')'' then map_option (Cons Close) (lex r)
      else if c = CHR ''*'' then map_option (Cons Asterisk) (lex r)
      else if c = CHR ''='' then map_option (Cons Equals) (lex r)
      else if c = CHR ''<''
      then (case r of
              Ch c' # r' \<Rightarrow> if c' = CHR ''='' then map_option (Cons LessEq) (lex r') else None
            | _ \<Rightarrow> None)
      else if c = CHR ''>''
      then (case r of
              Ch c' # r' \<Rightarrow> if c' = CHR ''='' then map_option (Cons GreaterEq) (lex r') else None
            | _ \<Rightarrow> None)
      else if c = quote
      then (case scan_literal r of
              None \<Rightarrow> None
            | Some (s, r') \<Rightarrow> map_option (Cons (Literal s)) (lex r'))
      else if is_letter c
      then (case scan_word r of
              (w, r') \<Rightarrow>
                (case r' of
                   Num x # r'' \<Rightarrow> None
                 | _ \<Rightarrow> map_option (Cons (Word (c # w))) (lex r')))
      else None)"
  by pat_completeness auto
termination
proof -
  have word: "length r' \<le> length r" if "scan_word r = (w, r')" for r w r'
    using that
    by (induction r arbitrary: w r' rule: scan_word.induct) (auto split: if_splits prod.splits)
  have literal: "length r' \<le> length r" if "scan_literal r = Some (s, r')" for r s r'
    using that
  proof (induction r arbitrary: s r' rule: scan_literal.induct)
    case (3 c r)
    then show ?case
      by (fastforce split: if_splits list.splits sym.splits)
  qed simp_all
  show ?thesis
  proof (relation "measure length", goal_cases)
    case 1 show ?case by simp
  qed (auto dest: word word [OF sym] literal literal [OF sym] simp: less_Suc_eq_le)
qed

datatype operand = Column string | NumberLit real | TextLit string

datatype comparator = Le | Ge | Eq

datatype condition = Compare operand comparator operand
  | And condition condition | Or condition condition

definition operand_of :: "token \<Rightarrow> operand option" where
  "operand_of t =
     (case t of Word w \<Rightarrow> Some (Column w) | Number x \<Rightarrow> Some (NumberLit x)
      | Literal s \<Rightarrow> Some (TextLit s) | _ \<Rightarrow> None)"

definition comparator_of :: "token \<Rightarrow> comparator option" where
  "comparator_of t =
     (case t of LessEq \<Rightarrow> Some Le | GreaterEq \<Rightarrow> Some Ge | Equals \<Rightarrow> Some Eq | _ \<Rightarrow> None)"

fun parse_or :: "nat \<Rightarrow> token list \<Rightarrow> (condition \<times> token list) option"
  and parse_and :: "nat \<Rightarrow> token list \<Rightarrow> (condition \<times> token list) option"
  and parse_atom :: "nat \<Rightarrow> token list \<Rightarrow> (condition \<times> token list) option" where
  "parse_or n ts =
     (if n = 0 then None
      else case parse_and (n - 1) ts of
             None \<Rightarrow> None
           | Some (e, ts') \<Rightarrow>
               (case ts' of
                  Word w # ts'' \<Rightarrow>
                    if w = ''OR''
                    then (case parse_or (n - 1) ts'' of
                            None \<Rightarrow> None
                          | Some (e', ts3) \<Rightarrow> Some (Or e e', ts3))
                    else Some (e, ts')
                | _ \<Rightarrow> Some (e, ts')))"
| "parse_and n ts =
     (if n = 0 then None
      else case parse_atom (n - 1) ts of
             None \<Rightarrow> None
           | Some (e, ts') \<Rightarrow>
               (case ts' of
                  Word w # ts'' \<Rightarrow>
                    if w = ''AND''
                    then (case parse_and (n - 1) ts'' of
                            None \<Rightarrow> None
                          | Some (e', ts3) \<Rightarrow> Some (And e e', ts3))
                    else Some (e, ts')
                | _ \<Rightarrow> Some (e, ts')))"
| "parse_atom n ts =
     (if n = 0 then None
      else case ts of
             Open # ts' \<Rightarrow>
               (case parse_or (n - 1) ts' of
                  Some (e, Close # ts'') \<Rightarrow> Some (e, ts'')
                | _ \<Rightarrow> None)
           | a # c # b # ts' \<Rightarrow>
               (case (operand_of a, comparator_of c, operand_of b) of
                  (Some x, Some cmp, Some y) \<Rightarrow> Some (Compare x cmp y, ts')
                | _ \<Rightarrow> None)
           | _ \<Rightarrow> None)"

declare parse_or.simps [simp del] parse_and.simps [simp del] parse_atom.simps [simp del]

record select =
  table :: string
  condition :: condition
  order_by :: "string option"

definition parse_select :: "token list \<Rightarrow> select option" where
  "parse_select ts =
     (case ts of
        Word s # Asterisk # Word f # Word t # Word w # rest \<Rightarrow>
          if s = ''SELECT'' \<and> f = ''FROM'' \<and> w = ''WHERE''
          then (case parse_or (3 * length rest + 3) rest of
                  None \<Rightarrow> None
                | Some (e, tail) \<Rightarrow>
                    (case tail of
                       [] \<Rightarrow> Some \<lparr>table = t, condition = e, order_by = None\<rparr>
                     | [Word ob, Word b, Word col, Word a] \<Rightarrow>
                         if ob = ''ORDER'' \<and> b = ''BY'' \<and> a = ''ASC''
                         then Some \<lparr>table = t, condition = e, order_by = Some col\<rparr>
                         else None
                     | _ \<Rightarrow> None))
          else None
      | _ \<Rightarrow> None)"

definition read_select :: "sym list \<Rightarrow> select option" where
  "read_select q = (case lex q of None \<Rightarrow> None | Some ts \<Rightarrow> parse_select ts)"

datatype 'r column = Numeric "'r \<Rightarrow> real" | Textual "'r \<Rightarrow> string"

definition resolve :: "(string \<Rightarrow> 'r column option) \<Rightarrow> operand \<Rightarrow> 'r column option" where
  "resolve schema x =
     (case x of Column n \<Rightarrow> schema n | NumberLit v \<Rightarrow> Some (Numeric (\<lambda>r. v))
      | TextLit s \<Rightarrow> Some (Textual (\<lambda>r. s)))"

definition compare_numbers :: "comparator \<Rightarrow> real \<Rightarrow> real \<Rightarrow> bool" where
  "compare_numbers c a b = (case c of Le \<Rightarrow> a \<le> b | Ge \<Rightarrow> b \<le> a | Eq \<Rightarrow> a = b)"

fun compile :: "(string \<Rightarrow> 'r column option) \<Rightarrow> (string \<Rightarrow> string \<Rightarrow> bool) \<Rightarrow> condition
                 \<Rightarrow> ('r \<Rightarrow> bool) option" where
  "compile schema text_eq (Compare a c b) =
     (case (resolve schema a, resolve schema b) of
        (Some (Numeric f), Some (Numeric g)) \<Rightarrow> Some (\<lambda>r. compare_numbers c (f r) (g r))
      | (Some (Textual f), Some (Textual g)) \<Rightarrow>
          if c = Eq then Some (\<lambda>r. text_eq (f r) (g r)) else None
      | _ \<Rightarrow> None)"
| "compile schema text_eq (And a b) =
     (case (compile schema text_eq a, compile schema text_eq b) of
        (Some p, Some q) \<Rightarrow> Some (\<lambda>r. p r \<and> q r) | _ \<Rightarrow> None)"
| "compile schema text_eq (Or a b) =
     (case (compile schema text_eq a, compile schema text_eq b) of
        (Some p, Some q) \<Rightarrow> Some (\<lambda>r. p r \<or> q r) | _ \<Rightarrow> None)"

text \<open>
  A selection that the reader understands is answered from the table: the rows that
  satisfy the condition, in table order, or sorted by the \<open>ORDER BY\<close> column (stable,
  where SQL leaves the order of ties open).
\<close>

definition run_select ::
  "(string \<Rightarrow> 'r column option) \<Rightarrow> (string \<Rightarrow> string \<Rightarrow> bool) \<Rightarrow> string \<Rightarrow> 'r list \<Rightarrow> sym list
     \<Rightarrow> 'r list option" where
  "run_select schema text_eq name rows q =
     (case read_select q of
        None \<Rightarrow> None
      | Some sel \<Rightarrow>
          if table sel = name
          then (case compile schema text_eq (condition sel) of
                  None \<Rightarrow> None
                | Some p \<Rightarrow>
                    (case order_by sel of
                       None \<Rightarrow> Some (filter p rows)
                     | Some col \<Rightarrow>
                         (case schema col of
                            Some (Numeric f) \<Rightarrow> Some (sort_key f (filter p rows))
                          | _ \<Rightarrow> None)))
          else None)"

subsection \<open>The store\<close>

text \<open>
  The store holds the two tables and counts the queries issued. How it compares a text
  column with a literal (its collation) and what it answers to a text that the reader
  above does not understand are its own: the fields \<open>text_equal\<close> and \<open>other_stars\<close>.
\<close>

record skymap_database =
  skymap_stars :: "star_row list"
  milkyway :: "milkyway_row list"
  queries :: nat
  text_equal :: "string \<Rightarrow> string \<Rightarrow> bool"
  other_stars :: "sym list \<Rightarrow> error + star_row list"

definition star_schema :: "string \<Rightarrow> star_row column option" where
  "star_schema name =
     (if name = ''magnitude'' then Some (Numeric magnitude)
      else if name = ''constellation'' then Some (Textual constellation)
      else if name = ''right_ascension'' then Some (Numeric right_ascension)
      else if name = ''declination'' then Some (Numeric declination)
      else None)"

definition query_stars ::
  "skymap_database \<Rightarrow> sym list \<Rightarrow> (error + star_row list) \<times> skymap_database" where
  "query_stars db q =
     ((case run_select star_schema (text_equal db) ''skymap_stars'' (skymap_stars db) q of
         Some rows \<Rightarrow> Inr rows
       | None \<Rightarrow> other_stars db q),
      db\<lparr>queries := Suc (queries db)\<rparr>)"

text \<open>
  The Milky Way selection pastes numbers only, so its text is fixed up to them; it is
  modelled by the condition on rows that the text denotes, and its rows come back in
  table order.
\<close>

definition query_milkyway ::
  "(milkyway_row \<Rightarrow> bool) \<Rightarrow> skymap_database \<Rightarrow> milkyway_row list \<times> skymap_database" where
  "query_milkyway q db = (filter q (milkyway db), db\<lparr>queries := Suc (queries db)\<rparr>)"

section \<open>stars.py: select\_stars\<close>

text \<open>
  The pieces that \<open>select_stars\<close> appends to its query text, one definition for each
  \<open>if\<close> of the source. An absent argument and an empty constellation name append
  nothing; the constellation name is pasted between quotes as it is.
\<close>

definition constellation_text :: "string option \<Rightarrow> sym list" where
  "constellation_text c =
     (case c of
        None \<Rightarrow> []
      | Some name \<Rightarrow>
          if name = [] then []
          else chars '' AND constellation='' @ [Ch quote] @ chars name @ [Ch quote])"

definition ra_text :: "(real \<times> real) option \<Rightarrow> sym list" where
  "ra_text ra_range =
     (case ra_range of
        None \<Rightarrow> []
      | Some (min_ra0, max_ra0) \<Rightarrow>
          let min_ra = ensure_angle_range min_ra0;
              max_ra = ensure_angle_range max_ra0
          in if min_ra < max_ra
             then chars '' AND right_ascension>='' @ fmt min_ra
                    @ chars '' AND right_ascension<='' @ fmt max_ra
             else if max_ra < min_ra
             then chars '' AND (right_ascension>='' @ fmt min_ra
                    @ chars '' OR right_ascension<='' @ fmt max_ra @ chars '')''
             else [])"

definition dec_text :: "(real \<times> real) option \<Rightarrow> error + sym list" where
  "dec_text dec_range =
     (case dec_range of
        None \<Rightarrow> Inr []
      | Some (min_dec, max_dec) \<Rightarrow>
          if min_dec < - 90 \<or> 90 < min_dec \<or> max_dec < - 90 \<or> 90 < max_dec \<or> max_dec \<le> min_dec
          then Inl ValueError
          else Inr (chars '' AND declination>='' @ fmt min_dec
                      @ chars '' AND declination<='' @ fmt max_dec))"

definition select_stars_query ::
  "real \<Rightarrow> string option \<Rightarrow> (real \<times> real) option \<Rightarrow> (real \<times> real) option \<Rightarrow> error + sym list" where
  "select_stars_query mag c ra_range dec_range =
     (case dec_text dec_range of
        Inl e \<Rightarrow> Inl e
      | Inr d \<Rightarrow>
          Inr (chars ''SELECT * FROM skymap_stars WHERE magnitude<='' @ fmt mag
                 @ constellation_text c @ ra_text ra_range @ d
                 @ chars '' ORDER BY magnitude ASC''))"

text \<open>
  \<open>select_stars\<close> builds the whole query before it opens the store, so the
  \<open>ValueError\<close> of an illegal declination range leaves the store as it was. An error
  of the store leaves \<open>select_stars\<close> as that error.
\<close>

definition select_stars ::
  "real \<Rightarrow> string option \<Rightarrow> (real \<times> real) option \<Rightarrow> (real \<times> real) option
     \<Rightarrow> skymap_database \<Rightarrow> (error + star list) \<times> skymap_database" where
  "select_stars mag c ra_range dec_range db =
     (case select_stars_query mag c ra_range dec_range of
        Inl e \<Rightarrow> (Inl e, db)
      | Inr q \<Rightarrow>
          (case query_stars db q of
             (Inl e, db') \<Rightarrow> (Inl e, db')
           | (Inr rows, db') \<Rightarrow> (Inr (map Star rows), db')))"

text \<open>
  What the pieces mean to the store when the constellation name stays inside its quotes,
  that is, holds neither a quote nor a backslash.
\<close>

definition constellation_intact :: "string option \<Rightarrow> bool" where
  "constellation_intact c =
     (case c of None \<Rightarrow> True | Some name \<Rightarrow> quote \<notin> set name \<and> backslash \<notin> set name)"

definition constellation_clause ::
  "(string \<Rightarrow> string \<Rightarrow> bool) \<Rightarrow> string option \<Rightarrow> star_row \<Rightarrow> bool" where
  "constellation_clause text_eq c r =
     (case c of None \<Rightarrow> True
      | Some name \<Rightarrow> if name = [] then True else text_eq (constellation r) name)"

definition ra_clause :: "(real \<times> real) option \<Rightarrow> star_row \<Rightarrow> bool" where
  "ra_clause ra_range r =
     (case ra_range of None \<Rightarrow> True
      | Some (min_ra0, max_ra0) \<Rightarrow>
          let min_ra = ensure_angle_range min_ra0;
              max_ra = ensure_angle_range max_ra0
          in if min_ra < max_ra
             then format12 min_ra \<le> right_ascension r \<and> right_ascension r \<le> format12 max_ra
             else if max_ra < min_ra
             then format12 min_ra \<le> right_ascension r \<or> right_ascension r \<le> format12 max_ra
             else True)"

definition dec_clause :: "(real \<times> real) option \<Rightarrow> star_row \<Rightarrow> bool" where
  "dec_clause dec_range r =
     (case dec_range of None \<Rightarrow> True
      | Some (min_dec, max_dec) \<Rightarrow>
          format12 min_dec \<le> declination r \<and> declination r \<le> format12 max_dec)"

section \<open>milkyway.py: get\_milky\_way\_boundary\_for\_area\<close>

text \<open>
  The longitude condition on one end point of an edge, as both halves of the query
  write it: a closed interval when \<open>min_lon < max_lon\<close>, the two rays otherwise. The
  branch is chosen on the numbers themselves, the text holds them as pasted.
\<close>

definition longitude_condition :: "real \<Rightarrow> real \<Rightarrow> real \<Rightarrow> bool" where
  "longitude_condition min_lon max_lon ra =
     (if min_lon < max_lon then format12 min_lon \<le> ra \<and> ra \<le> format12 max_lon
      else format12 min_lon \<le> ra \<or> ra \<le> format12 max_lon)"

definition milkyway_where :: "real \<Rightarrow> real \<Rightarrow> real \<Rightarrow> real \<Rightarrow> milkyway_row \<Rightarrow> bool" where
  "milkyway_where min_lon0 max_lon0 min_lat max_lat row =
     (let min_lon = ensure_angle_range min_lon0;
          max_lon1 = ensure_angle_range max_lon0;
          max_lon = (if max_lon1 = min_lon then max_lon1 + 360 else max_lon1)
      in (longitude_condition min_lon max_lon (ra1 row)
            \<and> format12 min_lat \<le> dec1 row \<and> dec1 row \<le> format12 max_lat)
         \<or> (longitude_condition min_lon max_lon (ra2 row)
            \<and> format12 min_lat \<le> dec2 row \<and> dec2 row \<le> format12 max_lat))"

definition row_line :: "milkyway_row \<Rightarrow> line" where
  "row_line row = Line (SphericalPoint (ra1 row) (dec1 row)) (SphericalPoint (ra2 row) (dec2 row))"

definition get_milky_way_boundary_for_area ::
  "real \<Rightarrow> real \<Rightarrow> real \<Rightarrow> real \<Rightarrow> skymap_database \<Rightarrow> line list \<times> skymap_database" where
  "get_milky_way_boundary_for_area min_lon0 max_lon0 min_lat max_lat db =
     (let (result, db') = query_milkyway (milkyway_where min_lon0 max_lon0 min_lat max_lat) db
      in (map row_line result, db'))"

section \<open>milkyway.py: extract\_point\<close>

text \<open>
  The character classes of the pattern, on byte strings: \<open>[A-Z]\<close>, \<open>\d\<close> and \<open>\s\<close>
  (space, tab, line feed, vertical tab, form feed, carriage return).
\<close>

definition is_upper :: "char \<Rightarrow> bool" where
  "is_upper c = (c \<in> set ''ABCDEFGHIJKLMNOPQRSTUVWXYZ'')"

definition is_digit :: "char \<Rightarrow> bool" where
  "is_digit c = (c \<in> set ''0123456789'')"

definition is_space :: "char \<Rightarrow> bool" where
  "is_space c = (c \<in> set [CHR '' '', CHR 0x09, CHR 0x0A, CHR 0x0B, CHR 0x0C, CHR 0x0D])"

text \<open>The two groups of the pattern: \<open>\d\d \d\d \d\d\<close> and \<open>\-?\d\d \d\d\<close>.\<close>

fun long_group :: "string \<Rightarrow> bool" where
  "long_group [a, b, s1, c, d, s2, e, f] =
     (is_digit a \<and> is_digit b \<and> s1 = CHR '' '' \<and> is_digit c \<and> is_digit d \<and> s2 = CHR '' ''
      \<and> is_digit e \<and> is_digit f)"
| "long_group _ = False"

fun lat_group :: "string \<Rightarrow> bool" where
  "lat_group [a, b, s1, c, d] =
     (is_digit a \<and> is_digit b \<and> s1 = CHR '' '' \<and> is_digit c \<and> is_digit d)"
| "lat_group [sign, a, b, s1, c, d] =
     (sign = CHR ''-'' \<and> is_digit a \<and> is_digit b \<and> s1 = CHR '' '' \<and> is_digit c \<and> is_digit d)"
| "lat_group _ = False"

text \<open>
  \<open>re.search\<close> of \<open>^[A-Z]+\s(\d\d \d\d \d\d), (\-?\d\d \d\d)$\<close> in a line: the match
  starts at the first character, the letters are the longest run of capitals (a shorter
  run would have to be followed by white space), the sign is taken when it is there, and
  \<open>$\<close> accepts the end of the line or a last line feed. The result is the two groups, or
  \<open>None\<close> when the line does not match.
\<close>

definition point_pattern :: "string \<Rightarrow> (string \<times> string) option" where
  "point_pattern line =
     (let letters = takeWhile is_upper line;
          rest = dropWhile is_upper line
      in if letters = [] then None
         else case rest of
                [] \<Rightarrow> None
              | sp # coords \<Rightarrow>
                  let long = take 8 coords;
                      separator = take 2 (drop 8 coords);
                      after = drop 10 coords;
                      lat = (if take 1 after = ''-'' then take 6 after else take 5 after);
                      tail = drop (length lat) after
                  in if is_space sp \<and> long_group long \<and> separator = '', '' \<and> lat_group lat
                        \<and> (tail = [] \<or> tail = [CHR 0x0A])
                     then Some (long, lat) else None)"

text \<open>\<open>str.split()\<close>: the maximal runs of characters that are not white space.\<close>

fun split_words :: "string \<Rightarrow> string \<Rightarrow> string list" where
  "split_words w [] = (if w = [] then [] else [w])"
| "split_words w (c # cs) =
     (if is_space c then (if w = [] then split_words [] cs else w # split_words [] cs)
      else split_words (w @ [c]) cs)"

definition str_split :: "string \<Rightarrow> string list" where
  "str_split s = split_words [] s"

text \<open>
  \<open>int(x)\<close> on the words the pattern lets through: decimal digits after an optional
  minus sign; anything else is a \<open>ValueError\<close>.
\<close>

definition digit_value :: "char \<Rightarrow> int" where
  "digit_value c = int (of_char c) - 48"

definition digits_value :: "string \<Rightarrow> int" where
  "digits_value ds = foldl (\<lambda>n c. 10 * n + digit_value c) 0 ds"

definition int_of_digits :: "string \<Rightarrow> error + int" where
  "int_of_digits ds =
     (if ds = [] then Inl ValueError
      else if list_all is_digit ds then Inr (digits_value ds) else Inl ValueError)"

definition int_of_string :: "string \<Rightarrow> error + int" where
  "int_of_string x =
     (case x of
        [] \<Rightarrow> Inl ValueError
      | c # cs \<Rightarrow> if c = CHR ''-'' then map_sum id uminus (int_of_digits cs) else int_of_digits x)"

fun ints :: "string list \<Rightarrow> error + int list" where
  "ints [] = Inr []"
| "ints (x # xs) =
     (case int_of_string x of
        Inl e \<Rightarrow> Inl e
      | Inr n \<Rightarrow> (case ints xs of Inl e \<Rightarrow> Inl e | Inr ns \<Rightarrow> Inr (n # ns)))"

text \<open>
  The body of the \<open>try\<close> block. \<open>HourAngle(h, m, s).to_degrees()\<close> and
  \<open>DMSAngle(degrees=d, minutes=m).to_degrees()\<close> belong to \<open>skymap.geometry\<close>, outside
  the sources at hand, and are the parameters \<open>hour_angle\<close> and \<open>dms_angle\<close>. A line
  without a match gives \<open>m = None\<close>, and \<open>m.groups()\<close> raises \<open>AttributeError\<close>; an
  unpacking of the wrong number of values raises \<open>ValueError\<close>.
\<close>

definition try_extract_point ::
  "(int \<Rightarrow> int \<Rightarrow> int \<Rightarrow> error + real) \<Rightarrow> (int \<Rightarrow> int \<Rightarrow> error + real) \<Rightarrow> string
     \<Rightarrow> error + spherical_point" where
  "try_extract_point hour_angle dms_angle line =
     (case point_pattern line of
        None \<Rightarrow> Inl AttributeError
      | Some (long, lat) \<Rightarrow>
          (case ints (str_split long) of
             Inl e \<Rightarrow> Inl e
           | Inr [h, m, s] \<Rightarrow>
               (case hour_angle h m s of
                  Inl e \<Rightarrow> Inl e
                | Inr lon \<Rightarrow>
                    (case ints (str_split lat) of
                       Inl e \<Rightarrow> Inl e
                     | Inr [d, m'] \<Rightarrow>
                         (case dms_angle d m' of
                            Inl e \<Rightarrow> Inl e
                          | Inr la \<Rightarrow> Inr (SphericalPoint lon la))
                     | Inr _ \<Rightarrow> Inl ValueError))
           | Inr _ \<Rightarrow> Inl ValueError))"

text \<open>
  \<open>extract_point\<close>: the \<open>except AttributeError\<close> clause turns that error, and no other,
  into the result \<open>None\<close>.
\<close>

definition extract_point ::
  "(int \<Rightarrow> int \<Rightarrow> int \<Rightarrow> error + real) \<Rightarrow> (int \<Rightarrow> int \<Rightarrow> error + real) \<Rightarrow> string
     \<Rightarrow> error + spherical_point option" where
  "extract_point hour_angle dms_angle line =
     (case try_extract_point hour_angle dms_angle line of
        Inl e \<Rightarrow> if e = AttributeError then Inr None else Inl e
      | Inr p \<Rightarrow> Inr (Some p))"

text \<open>
  Modelled from the spec: the two conversions of \<open>skymap.geometry\<close>, for evaluation.
  Spec section 4.1: hour angle \<open>(h, m, s)\<close> to degrees is \<open>15 * (h + m/60 + s/3600)\<close>, DMS
  \<open>(d, m, s)\<close> to degrees is \<open>sign(d) * (|d| + m/60 + s/3600)\<close>, and out-of-range minute
  or second fields fail with a parse error.
\<close>

definition HourAngle_to_degrees :: "int \<Rightarrow> int \<Rightarrow> int \<Rightarrow> error + real" where
  "HourAngle_to_degrees h m s =
     (if 0 \<le> m \<and> m < 60 \<and> 0 \<le> s \<and> s < 60
      then Inr (15 * (real_of_int h + real_of_int m / 60 + real_of_int s / 3600))
      else Inl ParseError)"

definition DMSAngle_to_degrees :: "int \<Rightarrow> int \<Rightarrow> error + real" where
  "DMSAngle_to_degrees d m =
     (if 0 \<le> m \<and> m < 60
      then Inr ((if d < 0 then - 1 else 1) * (real_of_int \<bar>d\<bar> + real_of_int m / 60))
      else Inl ParseError)"

section \<open>A small catalogue for evaluation\<close>

definition example_catalogue :: skymap_database where
  "example_catalogue =
     \<lparr>skymap_stars =
        [\<lparr>magnitude = 4, constellation = ''Psc'', right_ascension = 355, declination = 3\<rparr>,
         \<lparr>magnitude = 2, constellation = ''Psc'', right_ascension = 5, declination = 8\<rparr>,
         \<lparr>magnitude = 1, constellation = ''Vir'', right_ascension = 180, declination = 0\<rparr>,
         \<lparr>magnitude = 7, constellation = ''Psc'', right_ascension = 2, declination = 1\<rparr>],
      milkyway =
        [\<lparr>edge_id = 0, ra1 = 355, dec1 = 0, ra2 = 358, dec2 = 1\<rparr>,
         \<lparr>edge_id = 1, ra1 = 5, dec1 = 0, ra2 = 6, dec2 = 0\<rparr>,
         \<lparr>edge_id = 2, ra1 = 90, dec1 = 0, ra2 = 91, dec2 = 0\<rparr>,
         \<lparr>edge_id = 3, ra1 = 200, dec1 = 0, ra2 = 201, dec2 = 0\<rparr>],
      queries = 0,
      text_equal = (=),
      other_stars = (\<lambda>q. Inl DatabaseError)\<rparr>"



section \<open>Auxiliary facts about the grid loops\<close>

lemma py_int_of_int: "py_int (real_of_int k) = k"
  by (simp add: py_int_def)

lemma aligned_floor_eq:
  "increment \<noteq> 0 \<Longrightarrow> aligned_floor increment x = Inr (increment * \<lfloor>x / real_of_int increment\<rfloor>)"
  unfolding aligned_floor_def using py_int_of_int [of "increment * \<lfloor>x / real_of_int increment\<rfloor>"]
  by simp

lemma aligned_floor_le:
  assumes "0 < increment"
  shows "real_of_int (increment * \<lfloor>x / real_of_int increment\<rfloor>) \<le> x"
  using floor_divide_lower [of "real_of_int increment" x] assms by (simp add: mult.commute)

lemma floor_le_py_int: "\<lfloor>x\<rfloor> \<le> py_int x"
  by (simp add: py_int_def)

lemma range_up_set:
  "0 < step \<Longrightarrow> set (range_up start stop step) = {v. (\<exists>k\<ge>0. v = start + k * step) \<and> v < stop}"
proof (induction start stop step rule: range_up.induct)
  case (1 start stop step)
  show ?case
  proof (cases "start < stop")
    case False
    have "\<And>k. 0 \<le> k \<Longrightarrow> start \<le> start + k * step" using "1.prems" by simp
    with False show ?thesis
      using "1.prems" by (subst range_up.simps) fastforce
  next
    case True
    have ih: "set (range_up (start + step) stop step) = {v. (\<exists>k\<ge>0. v = start + step + k * step) \<and> v < stop}"
      using "1.IH" "1.prems" True by simp
    have "{v. (\<exists>k\<ge>0. v = start + k * step) \<and> v < stop}
          = insert start {v. (\<exists>k\<ge>0. v = start + step + k * step) \<and> v < stop}" (is "?L = ?R")
    proof (intro set_eqI iffI)
      fix v assume "v \<in> ?L"
      then obtain k where k: "0 \<le> k" "v = start + k * step" "v < stop" by auto
      show "v \<in> ?R"
      proof (cases "k = 0")
        case True with k show ?thesis by simp
      next
        case False
        with k have "0 \<le> k - 1" "v = start + step + (k - 1) * step" by (auto simp: algebra_simps)
        with k show ?thesis by blast
      qed
    next
      fix v assume "v \<in> ?R"
      then consider "v = start" | k where "0 \<le> k" "v = start + step + k * step" "v < stop" by auto
      then show "v \<in> ?L"
      proof cases
        case 1 with True show ?thesis by (auto intro: exI [of _ 0])
      next
        case 2
        then have "0 \<le> k + 1" "v = start + (k + 1) * step" by (auto simp: algebra_simps)
        with 2 show ?thesis by blast
      qed
    qed
    with ih True "1.prems" show ?thesis by (subst range_up.simps) simp
  qed
qed

lemma range_up_lower: "v \<in> set (range_up start stop step) \<Longrightarrow> start \<le> v"
proof (induction start stop step rule: range_up.induct)
  case (1 start stop step)
  from "1.prems" have c: "0 < step \<and> start < stop"
    by (subst (asm) range_up.simps) (auto split: if_splits)
  from "1.prems" c have "v = start \<or> v \<in> set (range_up (start + step) stop step)"
    by (subst (asm) range_up.simps) auto
  then show ?case using "1.IH" c by fastforce
qed

lemma range_up_sorted: "sorted (range_up start stop step) \<and> distinct (range_up start stop step)"
proof (induction start stop step rule: range_up.induct)
  case (1 start stop step)
  show ?case
  proof (cases "0 < step \<and> start < stop")
    case False
    then show ?thesis by (subst (1 2) range_up.simps) auto
  next
    case True
    have "\<forall>v \<in> set (range_up (start + step) stop step). start < v"
      using range_up_lower [of _ "start + step" stop step] True by fastforce
    with "1.IH" True show ?thesis
      by (subst (1 2) range_up.simps) (auto simp: less_imp_le)
  qed
qed

lemma range_up_Cons: "0 < step \<Longrightarrow> start < stop \<Longrightarrow> range_up start stop step = start # range_up (start + step) stop step"
  by (subst range_up.simps) simp

lemma range_up_hd: "range_up start stop step = x # xs \<Longrightarrow> x = start"
  by (subst (asm) range_up.simps) (auto split: if_splits)

lemma aligned_floor_le_py_int:
  assumes "0 < increment" and "lo \<le> hi"
  shows "increment * \<lfloor>lo / real_of_int increment\<rfloor> \<le> py_int hi"
proof -
  have "real_of_int (increment * \<lfloor>lo / real_of_int increment\<rfloor>) \<le> hi"
    using aligned_floor_le [OF assms(1), of lo] assms(2) by linarith
  then have "increment * \<lfloor>lo / real_of_int increment\<rfloor> \<le> \<lfloor>hi\<rfloor>"
    by (simp only: le_floor_iff)
  then show ?thesis using floor_le_py_int [of hi] by linarith
qed

lemma meridian_stop_gt:
  "lo \<le> py_int hi \<Longrightarrow> lo < meridian_stop lo hi"
  by (simp add: meridian_stop_def Let_def)

section \<open>Auxiliary facts about the point pattern\<close>

lemma digit_not_space: "is_digit c \<Longrightarrow> \<not> is_space c"
  by (auto simp: is_digit_def is_space_def)

lemma digit_not_minus: "is_digit c \<Longrightarrow> c \<noteq> CHR ''-''"
  by (auto simp: is_digit_def)

lemma space_is_space: "is_space CHR '' ''"
  by (simp add: is_space_def)

lemma minus_not_space: "\<not> is_space CHR ''-''"
  by (simp add: is_space_def)

lemma int_of_two_digits:
  "is_digit a \<Longrightarrow> is_digit b \<Longrightarrow> int_of_string [a, b] = Inr (10 * digit_value a + digit_value b)"
  by (simp add: int_of_string_def int_of_digits_def digits_value_def digit_not_minus)

lemma int_of_minus_two_digits:
  "is_digit a \<Longrightarrow> is_digit b
   \<Longrightarrow> int_of_string [CHR ''-'', a, b] = Inr (- (10 * digit_value a + digit_value b))"
  by (simp add: int_of_string_def int_of_digits_def digits_value_def)

lemma digit_value_range: "is_digit c \<Longrightarrow> 0 \<le> digit_value c \<and> digit_value c \<le> 9"
  by (auto simp: is_digit_def digit_value_def)

lemma long_group_fields:
  assumes "long_group long"
  shows "\<exists>h m s. ints (str_split long) = Inr [h, m, s] \<and> 0 \<le> m \<and> 0 \<le> s"
proof -
  from assms obtain a b c d e f
    where long: "long = [a, b, CHR '' '', c, d, CHR '' '', e, f]"
      and dig: "is_digit a" "is_digit b" "is_digit c" "is_digit d" "is_digit e" "is_digit f"
    by (auto elim!: long_group.elims)
  have "str_split long = [[a, b], [c, d], [e, f]]"
    using dig by (simp add: long str_split_def digit_not_space space_is_space)
  then have "ints (str_split long) = Inr [10 * digit_value a + digit_value b,
      10 * digit_value c + digit_value d, 10 * digit_value e + digit_value f]"
    using dig by (simp add: int_of_two_digits)
  moreover have "0 \<le> 10 * digit_value c + digit_value d" "0 \<le> 10 * digit_value e + digit_value f"
    using digit_value_range [OF dig(3)] digit_value_range [OF dig(4)]
          digit_value_range [OF dig(5)] digit_value_range [OF dig(6)] by linarith+
  ultimately show ?thesis by blast
qed

lemma lat_group_fields:
  assumes "lat_group lat"
  shows "\<exists>d m. ints (str_split lat) = Inr [d, m] \<and> 0 \<le> m"
proof -
  from assms consider
      a b c d where "lat = [a, b, CHR '' '', c, d]"
        "is_digit a" "is_digit b" "is_digit c" "is_digit d"
    | a b c d where "lat = [CHR ''-'', a, b, CHR '' '', c, d]"
        "is_digit a" "is_digit b" "is_digit c" "is_digit d"
    by (auto elim!: lat_group.elims)
  then show ?thesis
  proof cases
    case 1
    then have "str_split lat = [[a, b], [c, d]]"
      by (simp add: str_split_def digit_not_space space_is_space)
    with 1 have "ints (str_split lat) = Inr [10 * digit_value a + digit_value b,
        10 * digit_value c + digit_value d]"
      by (simp add: int_of_two_digits)
    moreover have "0 \<le> 10 * digit_value c + digit_value d"
      using digit_value_range [OF 1(4)] digit_value_range [OF 1(5)] by linarith
    ultimately show ?thesis by blast
  next
    case 2
    then have "str_split lat = [[CHR ''-'', a, b], [c, d]]"
      by (simp add: str_split_def digit_not_space space_is_space minus_not_space)
    with 2 have "ints (str_split lat) = Inr [- (10 * digit_value a + digit_value b),
        10 * digit_value c + digit_value d]"
      by (simp add: int_of_two_digits int_of_minus_two_digits)
    moreover have "0 \<le> 10 * digit_value c + digit_value d"
      using digit_value_range [OF 2(4)] digit_value_range [OF 2(5)] by linarith
    ultimately show ?thesis by blast
  qed
qed

lemma point_pattern_groups:
  "point_pattern line = Some (long, lat) \<Longrightarrow> long_group long \<and> lat_group lat"
  by (auto simp: point_pattern_def Let_def split: if_splits list.splits)

section \<open>Auxiliary facts about the numbers in a query text\<close>

lemma round_half_even_of_int: "round_half_even (real_of_int k) = k"
  by (simp add: round_half_even_def)

lemma decimal_exponent:
  assumes "10 ^ e \<le> \<bar>x\<bar>" and "\<bar>x\<bar> < 10 ^ Suc e"
  shows "\<lfloor>log 10 \<bar>x\<bar>\<rfloor> = int e"
proof -
  have "(0::real) < 10 ^ e" by simp
  with assms(1) have pos: "0 < \<bar>x\<bar>" by linarith
  have "real_of_int (int e + 1) = real (Suc e)" by simp
  then have "10 powr real_of_int (int e + 1) = (10::real) ^ Suc e"
    by (simp only: powr_realpow zero_less_numeral)
  moreover have "10 powr real_of_int (int e) = (10::real) ^ e"
    by (simp add: powr_realpow)
  ultimately have "10 powr real_of_int (int e) \<le> \<bar>x\<bar>" "\<bar>x\<bar> < 10 powr real_of_int (int e + 1)"
    using assms by simp_all
  then show ?thesis
    using floor_log_eq_powr_iff [of "\<bar>x\<bar>" 10 "int e"] pos by simp
qed

lemma format12_eval:
  assumes "10 ^ e \<le> \<bar>x\<bar>" and "\<bar>x\<bar> < 10 ^ Suc e"
  shows "format12 x = real_of_int (round_half_even (x * 10 powi (11 - int e))) / 10 powi (11 - int e)"
proof -
  have "(0::real) < 10 ^ e" by simp
  with assms(1) have "0 < \<bar>x\<bar>" by linarith
  then have "x \<noteq> 0" by simp
  then show ?thesis
    by (simp add: format12_def decimal_exponent [OF assms] Let_def)
qed

lemma format12_values:
  "format12 1 = 1" "format12 5 = 5" "format12 6 = 6" "format12 7 = 7" "format12 10 = 10"
  "format12 20 = 20" "format12 90 = 90" "format12 (- 90) = - 90" "format12 180 = 180"
  "format12 350 = 350" "format12 540 = 540" "format12 4 = 4"
  by (simp_all add: format12_eval [of 0] format12_eval [of 1] format12_eval [of 2]
      round_half_even_def power_int_def)


section \<open>Auxiliary facts about the reading of a query text\<close>

text \<open>
  The store reads the text of \<open>select_stars\<close> as the conditions its pieces stand for,
  whenever the constellation name stays inside its quotes.
\<close>

lemmas lex_classes = chars_def fmt_def quote_def backslash_def is_letter_def is_word_char_def

lemma scan_literal_intact:
  assumes "quote \<notin> set name" and "backslash \<notin> set name"
  shows "scan_literal (map Ch name @ Ch quote # Ch CHR '' '' # rest) = Some (name, Ch CHR '' '' # rest)"
  using assms by (induction name) (auto simp: quote_def)

lemma lex_tail:
  "lex (chars '' ORDER BY magnitude ASC'')
   = Some [Word ''ORDER'', Word ''BY'', Word ''magnitude'', Word ''ASC'']"
  by (simp add: lex_classes)

lemma lex_dec:
  assumes "lex rest = Some ts"
  shows "lex (chars '' AND declination>='' @ fmt a @ chars '' AND declination<='' @ fmt b @ rest)
         = Some ([Word ''AND'', Word ''declination'', GreaterEq, Number (format12 a),
                  Word ''AND'', Word ''declination'', LessEq, Number (format12 b)] @ ts)"
  using assms by (simp add: lex_classes)

lemma lex_ra_interval:
  assumes "lex rest = Some ts"
  shows "lex (chars '' AND right_ascension>='' @ fmt a @ chars '' AND right_ascension<='' @ fmt b @ rest)
         = Some ([Word ''AND'', Word ''right_ascension'', GreaterEq, Number (format12 a),
                  Word ''AND'', Word ''right_ascension'', LessEq, Number (format12 b)] @ ts)"
  using assms by (simp add: lex_classes)

lemma lex_ra_wrapped:
  assumes "lex rest = Some ts"
  shows "lex (chars '' AND (right_ascension>='' @ fmt a @ chars '' OR right_ascension<='' @ fmt b
               @ chars '')'' @ rest)
         = Some ([Word ''AND'', Open, Word ''right_ascension'', GreaterEq, Number (format12 a),
                  Word ''OR'', Word ''right_ascension'', LessEq, Number (format12 b), Close] @ ts)"
  using assms by (simp add: lex_classes)

lemma lex_constellation:
  assumes "quote \<notin> set name" and "backslash \<notin> set name"
      and "lex (Ch CHR '' '' # rest) = Some ts"
  shows "lex (chars '' AND constellation='' @ [Ch quote] @ chars name @ [Ch quote] @ Ch CHR '' '' # rest)
         = Some ([Word ''AND'', Word ''constellation'', Equals, Literal name] @ ts)"
proof -
  have "lex (Ch quote # map Ch name @ Ch quote # Ch CHR '' '' # rest) = Some (Literal name # ts)"
    using scan_literal_intact [OF assms(1,2), of rest] assms(3)
    by (simp add: quote_def)
  then show ?thesis
    by (simp add: chars_def is_letter_def is_word_char_def quote_def)
qed

lemma lex_head:
  assumes "lex rest = Some ts"
  shows "lex (chars ''SELECT * FROM skymap_stars WHERE magnitude<='' @ fmt mag @ rest)
         = Some ([Word ''SELECT'', Asterisk, Word ''FROM'', Word ''skymap_stars'', Word ''WHERE'',
                  Word ''magnitude'', LessEq, Number (format12 mag)] @ ts)"
  using assms by (simp add: lex_classes)

lemma parse_star_tokens:
  assumes "ctoks = [] \<and> cp = (\<lambda>r. True)
           \<or> ctoks = [Word ''AND'', Word ''constellation'', Equals, Literal name]
              \<and> cp = (\<lambda>r. teq (constellation r) name)"
      and "rtoks = [] \<and> rp = (\<lambda>r. True)
           \<or> rtoks = [Word ''AND'', Word ''right_ascension'', GreaterEq, Number lo,
                       Word ''AND'', Word ''right_ascension'', LessEq, Number hi]
              \<and> rp = (\<lambda>r. lo \<le> right_ascension r \<and> right_ascension r \<le> hi)
           \<or> rtoks = [Word ''AND'', Open, Word ''right_ascension'', GreaterEq, Number lo,
                       Word ''OR'', Word ''right_ascension'', LessEq, Number hi, Close]
              \<and> rp = (\<lambda>r. lo \<le> right_ascension r \<or> right_ascension r \<le> hi)"
      and "dtoks = [] \<and> dp = (\<lambda>r. True)
           \<or> dtoks = [Word ''AND'', Word ''declination'', GreaterEq, Number a,
                       Word ''AND'', Word ''declination'', LessEq, Number b]
              \<and> dp = (\<lambda>r. a \<le> declination r \<and> declination r \<le> b)"
  shows "\<exists>e. parse_select ([Word ''SELECT'', Asterisk, Word ''FROM'', Word ''skymap_stars'',
                             Word ''WHERE'', Word ''magnitude'', LessEq, Number m]
                            @ ctoks @ rtoks @ dtoks
                            @ [Word ''ORDER'', Word ''BY'', Word ''magnitude'', Word ''ASC''])
               = Some \<lparr>table = ''skymap_stars'', condition = e, order_by = Some ''magnitude''\<rparr>
             \<and> compile star_schema teq e
               = Some (\<lambda>r. magnitude r \<le> m \<and> cp r \<and> rp r \<and> dp r)"
  using assms
  by (elim disjE conjE;
      simp add: parse_select_def parse_or.simps parse_and.simps parse_atom.simps
        operand_of_def comparator_of_def resolve_def star_schema_def compare_numbers_def
        conj_assoc)

lemma run_select_stars:
  assumes "constellation_intact c" and "dec_text dec_range = Inr d"
  shows "run_select star_schema teq ''skymap_stars'' rows
           (chars ''SELECT * FROM skymap_stars WHERE magnitude<='' @ fmt mag
              @ constellation_text c @ ra_text ra_range @ d @ chars '' ORDER BY magnitude ASC'')
         = Some (sort_key magnitude (filter (\<lambda>r. magnitude r \<le> format12 mag
                    \<and> constellation_clause teq c r \<and> ra_clause ra_range r \<and> dec_clause dec_range r) rows))"
proof -
  let ?tail = "[Word ''ORDER'', Word ''BY'', Word ''magnitude'', Word ''ASC'']"
  let ?T = "chars '' ORDER BY magnitude ASC''"
  have space: "\<exists>r. ?T = Ch CHR '' '' # r" by (simp add: chars_def)
  obtain dtoks a b where
    d: "lex (d @ ?T) = Some (dtoks @ ?tail)" "\<exists>r. d @ ?T = Ch CHR '' '' # r"
       "dtoks = [] \<and> dec_clause dec_range = (\<lambda>r. True)
        \<or> dtoks = [Word ''AND'', Word ''declination'', GreaterEq, Number a,
                    Word ''AND'', Word ''declination'', LessEq, Number b]
           \<and> dec_clause dec_range = (\<lambda>r. a \<le> declination r \<and> declination r \<le> b)"
  proof (cases dec_range)
    case None
    with assms(2) have "d = []" by (simp add: dec_text_def)
    with None that [of "[]"] lex_tail space show ?thesis
      by (simp add: dec_clause_def fun_eq_iff)
  next
    case (Some p)
    obtain lo hi where p: "p = (lo, hi)" by (cases p)
    from assms(2) Some p
    have dd: "d = chars '' AND declination>='' @ fmt lo @ chars '' AND declination<='' @ fmt hi"
      by (simp add: dec_text_def split: if_splits)
    have "lex (d @ ?T) = Some ([Word ''AND'', Word ''declination'', GreaterEq, Number (format12 lo),
                  Word ''AND'', Word ''declination'', LessEq, Number (format12 hi)] @ ?tail)"
      unfolding dd using lex_dec [OF lex_tail, of lo hi] by simp
    moreover have "\<exists>r. d @ ?T = Ch CHR '' '' # r" unfolding dd by (simp add: chars_def)
    moreover have "dec_clause dec_range = (\<lambda>r. format12 lo \<le> declination r \<and> declination r \<le> format12 hi)"
      using Some p by (simp add: dec_clause_def fun_eq_iff)
    ultimately show ?thesis using that by blast
  qed
  obtain rtoks lo hi where
    r: "lex (ra_text ra_range @ d @ ?T) = Some (rtoks @ dtoks @ ?tail)"
       "\<exists>r. ra_text ra_range @ d @ ?T = Ch CHR '' '' # r"
       "rtoks = [] \<and> ra_clause ra_range = (\<lambda>r. True)
        \<or> rtoks = [Word ''AND'', Word ''right_ascension'', GreaterEq, Number lo,
                    Word ''AND'', Word ''right_ascension'', LessEq, Number hi]
           \<and> ra_clause ra_range = (\<lambda>r. lo \<le> right_ascension r \<and> right_ascension r \<le> hi)
        \<or> rtoks = [Word ''AND'', Open, Word ''right_ascension'', GreaterEq, Number lo,
                    Word ''OR'', Word ''right_ascension'', LessEq, Number hi, Close]
           \<and> ra_clause ra_range = (\<lambda>r. lo \<le> right_ascension r \<or> right_ascension r \<le> hi)"
  proof -
    consider (none) "ra_text ra_range = []" "ra_clause ra_range = (\<lambda>r. True)"
      | (interval) x y where
          "ra_text ra_range = chars '' AND right_ascension>='' @ fmt x
                                @ chars '' AND right_ascension<='' @ fmt y"
          "ra_clause ra_range = (\<lambda>r. format12 x \<le> right_ascension r \<and> right_ascension r \<le> format12 y)"
      | (wrapped) x y where
          "ra_text ra_range = chars '' AND (right_ascension>='' @ fmt x
                                @ chars '' OR right_ascension<='' @ fmt y @ chars '')''"
          "ra_clause ra_range = (\<lambda>r. format12 x \<le> right_ascension r \<or> right_ascension r \<le> format12 y)"
    proof (cases ra_range)
      case None
      then show ?thesis using none by (simp add: ra_text_def ra_clause_def fun_eq_iff)
    next
      case (Some p)
      obtain x0 y0 where p: "p = (x0, y0)" by (cases p)
      consider "ensure_angle_range x0 < ensure_angle_range y0"
        | "ensure_angle_range y0 < ensure_angle_range x0"
        | "ensure_angle_range x0 = ensure_angle_range y0" by linarith
      then show ?thesis
      proof cases
        case 1
        with Some p show ?thesis
          using interval [of "ensure_angle_range x0" "ensure_angle_range y0"]
          by (simp add: ra_text_def ra_clause_def fun_eq_iff)
      next
        case 2
        with Some p show ?thesis
          using wrapped [of "ensure_angle_range x0" "ensure_angle_range y0"]
          by (simp add: ra_text_def ra_clause_def fun_eq_iff)
      next
        case 3
        with Some p show ?thesis using none by (simp add: ra_text_def ra_clause_def fun_eq_iff)
      qed
    qed
    then show ?thesis
    proof cases
      case none
      with d that [of "[]"] show ?thesis by simp
    next
      case (interval x y)
      have "lex (ra_text ra_range @ d @ ?T)
            = Some ([Word ''AND'', Word ''right_ascension'', GreaterEq, Number (format12 x),
                     Word ''AND'', Word ''right_ascension'', LessEq, Number (format12 y)]
                    @ dtoks @ ?tail)"
        unfolding interval(1) using lex_ra_interval [OF d(1), of x y] by simp
      moreover have "\<exists>r. ra_text ra_range @ d @ ?T = Ch CHR '' '' # r"
        unfolding interval(1) by (simp add: chars_def)
      ultimately show ?thesis using that interval(2) by blast
    next
      case (wrapped x y)
      have "lex (ra_text ra_range @ d @ ?T)
            = Some ([Word ''AND'', Open, Word ''right_ascension'', GreaterEq, Number (format12 x),
                     Word ''OR'', Word ''right_ascension'', LessEq, Number (format12 y), Close]
                    @ dtoks @ ?tail)"
        unfolding wrapped(1) using lex_ra_wrapped [OF d(1), of x y] by simp
      moreover have "\<exists>r. ra_text ra_range @ d @ ?T = Ch CHR '' '' # r"
        unfolding wrapped(1) by (simp add: chars_def)
      ultimately show ?thesis using that wrapped(2) by blast
    qed
  qed
  obtain ctoks name where
    c: "lex (constellation_text c @ ra_text ra_range @ d @ ?T) = Some (ctoks @ rtoks @ dtoks @ ?tail)"
       "ctoks = [] \<and> constellation_clause teq c = (\<lambda>r. True)
        \<or> ctoks = [Word ''AND'', Word ''constellation'', Equals, Literal name]
           \<and> constellation_clause teq c = (\<lambda>r. teq (constellation r) name)"
  proof (cases "c = None \<or> c = Some []")
    case True
    then have "constellation_text c = []" "constellation_clause teq c = (\<lambda>r. True)"
      by (auto simp: constellation_text_def constellation_clause_def fun_eq_iff)
    with r(1) that [of "[]"] show ?thesis by simp
  next
    case False
    then obtain n where n: "c = Some n" "n \<noteq> []" by (cases c) auto
    with assms(1) have intact: "quote \<notin> set n" "backslash \<notin> set n"
      by (simp_all add: constellation_intact_def)
    from r(2) obtain rest where rest: "ra_text ra_range @ d @ ?T = Ch CHR '' '' # rest" by blast
    have "lex (constellation_text c @ ra_text ra_range @ d @ ?T)
          = Some ([Word ''AND'', Word ''constellation'', Equals, Literal n] @ rtoks @ dtoks @ ?tail)"
      using lex_constellation [OF intact, of rest "rtoks @ dtoks @ ?tail"] r(1) n
      by (simp add: constellation_text_def rest)
    moreover have "constellation_clause teq c = (\<lambda>r. teq (constellation r) n)"
      using n by (simp add: constellation_clause_def fun_eq_iff)
    ultimately show ?thesis using that by blast
  qed
  have q: "lex (chars ''SELECT * FROM skymap_stars WHERE magnitude<='' @ fmt mag
              @ constellation_text c @ ra_text ra_range @ d @ ?T)
           = Some ([Word ''SELECT'', Asterisk, Word ''FROM'', Word ''skymap_stars'', Word ''WHERE'',
                    Word ''magnitude'', LessEq, Number (format12 mag)]
                   @ ctoks @ rtoks @ dtoks @ ?tail)"
    using lex_head [OF c(1)] by simp
  from parse_star_tokens [where ctoks = ctoks and cp = "constellation_clause teq c" and name = name
      and teq = teq and rtoks = rtoks and rp = "ra_clause ra_range" and lo = lo and hi = hi
      and dtoks = dtoks and dp = "dec_clause dec_range" and a = a and b = b
      and m = "format12 mag", OF c(2) r(3) d(3)]
  obtain e where e:
    "parse_select ([Word ''SELECT'', Asterisk, Word ''FROM'', Word ''skymap_stars'',
                    Word ''WHERE'', Word ''magnitude'', LessEq, Number (format12 mag)]
                   @ ctoks @ rtoks @ dtoks @ ?tail)
     = Some \<lparr>table = ''skymap_stars'', condition = e, order_by = Some ''magnitude''\<rparr>"
    "compile star_schema teq e
     = Some (\<lambda>r. magnitude r \<le> format12 mag \<and> constellation_clause teq c r
                  \<and> ra_clause ra_range r \<and> dec_clause dec_range r)"
    by blast
  from e show ?thesis
    by (simp add: run_select_def read_select_def q star_schema_def)
qed

lemma select_stars_split:
  assumes "constellation_intact c"
  shows "select_stars mag c ra_range dec_range db =
     (case dec_text dec_range of
        Inl e \<Rightarrow> (Inl e, db)
      | Inr d \<Rightarrow>
          (Inr (map Star (sort_key magnitude (filter (\<lambda>r. magnitude r \<le> format12 mag
                    \<and> constellation_clause (text_equal db) c r \<and> ra_clause ra_range r
                    \<and> dec_clause dec_range r) (skymap_stars db)))),
           db\<lparr>queries := Suc (queries db)\<rparr>))"
proof (cases "dec_text dec_range")
  case (Inl e)
  then show ?thesis by (simp add: select_stars_def select_stars_query_def)
next
  case (Inr d)
  from run_select_stars [OF assms Inr] Inr show ?thesis
    by (simp add: select_stars_def select_stars_query_def query_stars_def)
qed

section \<open>Auxiliary facts about the selections\<close>






lemma milkyway_result:
  "fst (get_milky_way_boundary_for_area min_lon0 max_lon0 min_lat max_lat db)
   = map row_line (filter (milkyway_where min_lon0 max_lon0 min_lat max_lat) (milkyway db))"
  by (simp add: get_milky_way_boundary_for_area_def query_milkyway_def)

lemma select_stars_equal_endpoints:
  assumes "constellation_intact c"
      and "ensure_angle_range min_ra0 = ensure_angle_range max_ra0"
  shows "select_stars mag c (Some (min_ra0, max_ra0)) dec_range db
         = select_stars mag c None dec_range db"
proof -
  from assms(2) have "ra_clause (Some (min_ra0, max_ra0)) = ra_clause None"
    by (simp add: ra_clause_def fun_eq_iff)
  then show ?thesis by (simp only: select_stars_split [OF assms(1)])
qed

lemma milkyway_where_equal_endpoints:
  assumes "ensure_angle_range min_lon0 = ensure_angle_range max_lon0"
  shows "milkyway_where min_lon0 max_lon0 min_lat max_lat row
         = ((format12 (ensure_angle_range min_lon0) \<le> ra1 row
               \<and> ra1 row \<le> format12 (ensure_angle_range min_lon0 + 360)
               \<and> format12 min_lat \<le> dec1 row \<and> dec1 row \<le> format12 max_lat)
            \<or> (format12 (ensure_angle_range min_lon0) \<le> ra2 row
               \<and> ra2 row \<le> format12 (ensure_angle_range min_lon0 + 360)
               \<and> format12 min_lat \<le> dec2 row \<and> dec2 row \<le> format12 max_lat))"
  using assms by (simp add: milkyway_where_def longitude_condition_def Let_def)

section \<open>Auxiliary facts about propagate\_position2\<close>








section \<open>Theorems\<close>




text \<open>
  C2. Equal normalised bounds are to denote the full circle. \<open>select_stars\<close> does so
  (\<open>select_stars_equal_endpoints\<close>); \<open>get_milky_way_boundary_for_area\<close> adds 360 to the
  upper bound and keeps the lower one (\<open>milkyway_where_equal_endpoints\<close>), so for the
  bounds 180 and 180 the edges at longitudes 5 and 90 are left out, while the stars at
  every longitude are returned.
\<close>

theorem milkyway_equal_endpoints_not_full_circle:
  "fst (get_milky_way_boundary_for_area 180 180 (- 90) 90 example_catalogue)
     = [Line (SphericalPoint 355 0) (SphericalPoint 358 1),
        Line (SphericalPoint 200 0) (SphericalPoint 201 0)]
   \<and> fst (select_stars 6 None (Some (180, 180)) None example_catalogue)
     = Inr [Star \<lparr>magnitude = 1, constellation = ''Vir'', right_ascension = 180, declination = 0\<rparr>,
            Star \<lparr>magnitude = 2, constellation = ''Psc'', right_ascension = 5, declination = 8\<rparr>,
            Star \<lparr>magnitude = 4, constellation = ''Psc'', right_ascension = 355, declination = 3\<rparr>]"
proof -
  have intact: "constellation_intact None" by (simp add: constellation_intact_def)
  have "fst (get_milky_way_boundary_for_area 180 180 (- 90) 90 example_catalogue)
     = [Line (SphericalPoint 355 0) (SphericalPoint 358 1),
        Line (SphericalPoint 200 0) (SphericalPoint 201 0)]"
    by (simp add: milkyway_result milkyway_where_def longitude_condition_def ensure_angle_range_def
        format12_values row_line_def example_catalogue_def)
  moreover have "fst (select_stars 6 None (Some (180, 180)) None example_catalogue)
     = Inr [Star \<lparr>magnitude = 1, constellation = ''Vir'', right_ascension = 180, declination = 0\<rparr>,
            Star \<lparr>magnitude = 2, constellation = ''Psc'', right_ascension = 5, declination = 8\<rparr>,
            Star \<lparr>magnitude = 4, constellation = ''Psc'', right_ascension = 355, declination = 3\<rparr>]"
    by (simp add: select_stars_split [OF intact] dec_text_def dec_clause_def ra_clause_def
        constellation_clause_def ensure_angle_range_def format12_values example_catalogue_def)
  ultimately show ?thesis by simp
qed

text \<open>
  C3. Grid increment flooring: for a positive integer increment \<open>i\<close> and a viewport
  minimum \<open>m\<close>, the first grid value that \<open>draw_parallels\<close> and \<open>draw_meridians\<close>
  visit is \<open>i * floor (m / i)\<close>. Whenever a loop draws anything its first value is that
  one, and it does draw whenever the viewport's minimum is not above its maximum. For
  increment 10 and minimum latitude -37 the first parallel is at -40.
\<close>

theorem grid_first_value:
  assumes "0 < increment"
  shows "(\<forall>x xs. draw_parallels m increment = Inr (x # xs)
            \<longrightarrow> x = increment * \<lfloor>min_latitude m / real_of_int increment\<rfloor>)
       \<and> (min_latitude m \<le> max_latitude m
            \<longrightarrow> (\<exists>xs. draw_parallels m increment
                        = Inr (increment * \<lfloor>min_latitude m / real_of_int increment\<rfloor> # xs)))
       \<and> (\<forall>x xs. draw_meridians m increment = Inr (x # xs)
            \<longrightarrow> x = increment * \<lfloor>min_longitude m / real_of_int increment\<rfloor>)
       \<and> (min_longitude m \<le> max_longitude m
            \<longrightarrow> (\<exists>xs. draw_meridians m increment
                        = Inr (increment * \<lfloor>min_longitude m / real_of_int increment\<rfloor> # xs)))"
proof -
  from assms have nz: "increment \<noteq> 0" by simp
  let ?lat = "increment * \<lfloor>min_latitude m / real_of_int increment\<rfloor>"
  let ?lon = "increment * \<lfloor>min_longitude m / real_of_int increment\<rfloor>"
  have par: "draw_parallels m increment = Inr (range_up ?lat (py_int (max_latitude m) + 1) increment)"
    using assms by (simp add: draw_parallels_def aligned_floor_eq [OF nz] py_range_def)
  have mer: "draw_meridians m increment
             = Inr (range_up ?lon (meridian_stop ?lon (max_longitude m)) increment)"
    using assms by (simp add: draw_meridians_def aligned_floor_eq [OF nz] py_range_def)
  have 1: "\<forall>x xs. draw_parallels m increment = Inr (x # xs) \<longrightarrow> x = ?lat"
    unfolding par by (auto dest: range_up_hd)
  have 3: "\<forall>x xs. draw_meridians m increment = Inr (x # xs) \<longrightarrow> x = ?lon"
    unfolding mer by (auto dest: range_up_hd)
  have 2: "\<exists>xs. draw_parallels m increment = Inr (?lat # xs)" if "min_latitude m \<le> max_latitude m"
  proof -
    have "?lat < py_int (max_latitude m) + 1"
      using aligned_floor_le_py_int [OF assms that] by linarith
    then show ?thesis unfolding par using range_up_Cons [OF assms] by blast
  qed
  have 4: "\<exists>xs. draw_meridians m increment = Inr (?lon # xs)" if "min_longitude m \<le> max_longitude m"
  proof -
    have "?lon < meridian_stop ?lon (max_longitude m)"
      using meridian_stop_gt [OF aligned_floor_le_py_int [OF assms that]] .
    then show ?thesis unfolding mer using range_up_Cons [OF assms] by blast
  qed
  from 1 2 3 4 show ?thesis by blast
qed

theorem grid_first_value_witness:
  "draw_parallels \<lparr>min_longitude = 20, max_longitude = 50, min_latitude = -37, max_latitude = 12\<rparr> 10
     = Inr [-40, -30, -20, -10, 0, 10]
   \<and> draw_meridians \<lparr>min_longitude = 20, max_longitude = 50, min_latitude = -37, max_latitude = 12\<rparr> 10
     = Inr [20, 30, 40, 50]"
proof -
  have h: "(0::int) < 10" by simp
  show ?thesis
    using grid_first_value [OF h, of "\<lparr>min_longitude = 20, max_longitude = 50, min_latitude = -37, max_latitude = 12\<rparr>"]
    by (simp add: draw_parallels_def draw_meridians_def meridian_stop_def aligned_floor_def
        py_range_def py_int_def range_up.simps)
qed

text \<open>
  C4, as the claim states it: when \<open>max_longitude - 360 < min_longitude\<close> the stop value
  of the meridian loop would be one increment further, and the loop would reach the
  meridians of a range stored across the seam. The source adds 1, not the increment: for
  the viewport 0..20 and increment 15 the stop value is 21 and the meridians are 0 and 15,
  and for the range 350..10 the stop value is 11 and no meridian is visited.
\<close>

theorem meridians_wrap_counterexample:
  "meridian_stop 0 20 = 21
   \<and> draw_meridians \<lparr>min_longitude = 0, max_longitude = 20, min_latitude = 0, max_latitude = 10\<rparr> 15
       = Inr [0, 15]
   \<and> meridian_stop 345 10 = 11
   \<and> draw_meridians \<lparr>min_longitude = 350, max_longitude = 10, min_latitude = 0, max_latitude = 10\<rparr> 15
       = Inr []"
  by (simp add: draw_meridians_def meridian_stop_def aligned_floor_def
        py_range_def py_int_def range_up.simps)

text \<open>
  C4, amended. In \<open>draw_meridians\<close>, whenever \<open>int(max_longitude) - 360\<close> is below the
  increment-aligned minimum, the stop value of the loop is extended by 1 (one degree, not
  one increment), which makes \<open>int(max_longitude)\<close> an inclusive bound: for a positive
  increment and a range stored with \<open>min_longitude \<le> max_longitude\<close> the loop visits, in
  ascending order and once each, exactly the values \<open>min + k * increment\<close> (\<open>k \<ge> 0\<close>,
  \<open>min\<close> the aligned floor of \<open>min_longitude\<close>) up to and including \<open>int(max_longitude)\<close>.
\<close>

theorem meridians_inclusive_stop:
  assumes "0 < increment"
      and "min_longitude m \<le> max_longitude m"
      and "py_int (max_longitude m) - 360 < increment * \<lfloor>min_longitude m / real_of_int increment\<rfloor>"
  shows "meridian_stop (increment * \<lfloor>min_longitude m / real_of_int increment\<rfloor>) (max_longitude m)
           = py_int (max_longitude m) + 1
       \<and> (\<exists>xs. draw_meridians m increment = Inr xs \<and> sorted xs \<and> distinct xs
             \<and> set xs = {v. (\<exists>k\<ge>0. v = increment * \<lfloor>min_longitude m / real_of_int increment\<rfloor>
                                        + k * increment)
                           \<and> v \<le> py_int (max_longitude m)})"
proof -
  from assms have nz: "increment \<noteq> 0" by simp
  let ?lon = "increment * \<lfloor>min_longitude m / real_of_int increment\<rfloor>"
  have stop: "meridian_stop ?lon (max_longitude m) = py_int (max_longitude m) + 1"
    using assms(3) by (simp add: meridian_stop_def Let_def)
  have mer: "draw_meridians m increment
             = Inr (range_up ?lon (py_int (max_longitude m) + 1) increment)"
    using assms(1) stop by (simp add: draw_meridians_def aligned_floor_eq [OF nz] py_range_def)
  have "set (range_up ?lon (py_int (max_longitude m) + 1) increment)
        = {v. (\<exists>k\<ge>0. v = ?lon + k * increment) \<and> v \<le> py_int (max_longitude m)}"
    using range_up_set [OF assms(1), of ?lon "py_int (max_longitude m) + 1"] by auto
  with stop mer range_up_sorted [of ?lon "py_int (max_longitude m) + 1" increment]
  show ?thesis by simp
qed

theorem meridians_inclusive_stop_witness:
  "meridian_stop 15 50 = 51
   \<and> draw_meridians \<lparr>min_longitude = 20, max_longitude = 50, min_latitude = -37, max_latitude = 12\<rparr> 5
       = Inr [20, 25, 30, 35, 40, 45, 50]"
proof -
  let ?m = "\<lparr>min_longitude = 20, max_longitude = 50, min_latitude = -37, max_latitude = 12\<rparr>"
  have h1: "(0::int) < 5" by simp
  have h2: "min_longitude ?m \<le> max_longitude ?m" by simp
  have h3: "py_int (max_longitude ?m) - 360 < 5 * \<lfloor>min_longitude ?m / real_of_int 5\<rfloor>"
    by (simp add: py_int_def)
  show ?thesis
    using meridians_inclusive_stop [OF h1 h2 h3]
    by (simp add: draw_meridians_def meridian_stop_def aligned_floor_def
        py_range_def py_int_def range_up.simps)
qed




text \<open>
  C6, as the claim states it: a line whose coordinate fields do not match the pattern
  would make the point extraction fail with a parse error. The source catches the
  \<open>AttributeError\<close> of the failed match and returns \<open>None\<close>: a line without the seconds
  field gives \<open>None\<close>, not an error.
\<close>

theorem extract_point_mismatch_counterexample:
  "point_pattern ''MOVE 12 30, 05 20'' = None
   \<and> extract_point HourAngle_to_degrees DMSAngle_to_degrees ''MOVE 12 30, 05 20'' = Inr None"
  by (simp add: extract_point_def try_extract_point_def point_pattern_def is_upper_def
      is_digit_def is_space_def)

text \<open>
  C6, amended. A line that does not match the point pattern makes \<open>extract_point\<close>
  return \<open>None\<close>; no error is raised. A line that matches has its fields read as
  integers \<open>h m s\<close> and \<open>d m'\<close>; when a minute or second field is out of range (60 or
  more) the conversion fails with a parse error and \<open>extract_point\<close> fails with it, never
  clamped and never \<open>None\<close>; otherwise \<open>extract_point\<close> returns the converted point. The
  conversions are those of spec section 4.1.
\<close>

theorem extract_point_malformed:
  "(point_pattern line = None
      \<longrightarrow> extract_point HourAngle_to_degrees DMSAngle_to_degrees line = Inr None)
   \<and> (point_pattern line = Some (long, lat) \<longrightarrow>
        (\<exists>h m s d m'. ints (str_split long) = Inr [h, m, s] \<and> ints (str_split lat) = Inr [d, m']
           \<and> (60 \<le> m \<or> 60 \<le> s \<or> 60 \<le> m'
                \<longrightarrow> extract_point HourAngle_to_degrees DMSAngle_to_degrees line = Inl ParseError)
           \<and> (m < 60 \<and> s < 60 \<and> m' < 60
                \<longrightarrow> extract_point HourAngle_to_degrees DMSAngle_to_degrees line
                      = Inr (Some (SphericalPoint
                          (15 * (real_of_int h + real_of_int m / 60 + real_of_int s / 3600))
                          ((if d < 0 then - 1 else 1) * (real_of_int \<bar>d\<bar> + real_of_int m' / 60)))))))"
proof -
  have mismatch: "extract_point HourAngle_to_degrees DMSAngle_to_degrees line = Inr None"
    if "point_pattern line = None"
    using that by (simp add: extract_point_def try_extract_point_def)
  have matched: "\<exists>h m s d m'. ints (str_split long) = Inr [h, m, s] \<and> ints (str_split lat) = Inr [d, m']
           \<and> (60 \<le> m \<or> 60 \<le> s \<or> 60 \<le> m'
                \<longrightarrow> extract_point HourAngle_to_degrees DMSAngle_to_degrees line = Inl ParseError)
           \<and> (m < 60 \<and> s < 60 \<and> m' < 60
                \<longrightarrow> extract_point HourAngle_to_degrees DMSAngle_to_degrees line
                      = Inr (Some (SphericalPoint
                          (15 * (real_of_int h + real_of_int m / 60 + real_of_int s / 3600))
                          ((if d < 0 then - 1 else 1) * (real_of_int \<bar>d\<bar> + real_of_int m' / 60)))))"
    if match: "point_pattern line = Some (long, lat)"
  proof -
    from point_pattern_groups [OF match] long_group_fields lat_group_fields
    obtain h m s d m' where f: "ints (str_split long) = Inr [h, m, s]" "0 \<le> m" "0 \<le> s"
        "ints (str_split lat) = Inr [d, m']" "0 \<le> m'"
      by blast
    have "extract_point HourAngle_to_degrees DMSAngle_to_degrees line = Inl ParseError"
      if "60 \<le> m \<or> 60 \<le> s \<or> 60 \<le> m'"
      using that f
      by (auto simp: extract_point_def try_extract_point_def match HourAngle_to_degrees_def
          DMSAngle_to_degrees_def)
    moreover have "extract_point HourAngle_to_degrees DMSAngle_to_degrees line
                      = Inr (Some (SphericalPoint
                          (15 * (real_of_int h + real_of_int m / 60 + real_of_int s / 3600))
                          ((if d < 0 then - 1 else 1) * (real_of_int \<bar>d\<bar> + real_of_int m' / 60))))"
      if "m < 60 \<and> s < 60 \<and> m' < 60"
      using that f
      by (simp add: extract_point_def try_extract_point_def match HourAngle_to_degrees_def
          DMSAngle_to_degrees_def)
    ultimately show ?thesis using f by blast
  qed
  from mismatch matched show ?thesis by blast
qed

theorem extract_point_malformed_witness:
  "extract_point HourAngle_to_degrees DMSAngle_to_degrees ''MOVE 12:30:00, 05 20'' = Inr None
   \<and> extract_point HourAngle_to_degrees DMSAngle_to_degrees ''MOVE 12 75 99, 05 80'' = Inl ParseError
   \<and> extract_point HourAngle_to_degrees DMSAngle_to_degrees ''DRAW 12 30 00, -05 20''
       = Inr (Some (SphericalPoint (375 / 2) (- (16 / 3))))"
proof -
  have p1: "point_pattern ''MOVE 12:30:00, 05 20'' = None"
    by (simp add: point_pattern_def is_upper_def is_digit_def is_space_def)
  have p2: "point_pattern ''MOVE 12 75 99, 05 80'' = Some (''12 75 99'', ''05 80'')"
    by (simp add: point_pattern_def is_upper_def is_digit_def is_space_def)
  have p3: "point_pattern ''DRAW 12 30 00, -05 20'' = Some (''12 30 00'', ''-05 20'')"
    by (simp add: point_pattern_def is_upper_def is_digit_def is_space_def)
  have i2: "ints (str_split ''12 75 99'') = Inr [12, 75, 99]" "ints (str_split ''05 80'') = Inr [5, 80]"
    and i3: "ints (str_split ''12 30 00'') = Inr [12, 30, 0]" "ints (str_split ''-05 20'') = Inr [- 5, 20]"
    by (simp_all add: str_split_def is_space_def is_digit_def int_of_string_def int_of_digits_def
        digits_value_def digit_value_def)
  show ?thesis
    using extract_point_malformed [of "''MOVE 12:30:00, 05 20''"]
          extract_point_malformed [of "''MOVE 12 75 99, 05 80''" "''12 75 99''" "''05 80''"]
          extract_point_malformed [of "''DRAW 12 30 00, -05 20''" "''12 30 00''" "''-05 20''"]
    by (auto simp: p1 p2 p3 i2 i3)
qed




text \<open>
  C9. \<open>propagate_position\<close> is the identity on the position whenever either
  proper-motion component is zero or \<open>None\<close>: for every pair of epochs and every
  position the returned pair is the input pair, whatever the other component is.
\<close>

theorem propagate_position_identity:
  assumes "proper_motion_ra = None \<or> proper_motion_ra = Some 0
           \<or> proper_motion_dec = None \<or> proper_motion_dec = Some 0"
  shows "propagate_position jyd from_epoch to_epoch ra0 dec0 proper_motion_ra proper_motion_dec
         = Inr (ra0, dec0)"
  using assms by (auto simp: propagate_position_def falsy_def)

theorem propagate_position_identity_witness:
  "propagate_position (\<lambda>t f. real_of_int (t - f)) (1991::int) 2000 10 20 (Some 0) (Some 35)
     = Inr (10, 20)
   \<and> propagate_position (\<lambda>t f. real_of_int (t - f)) (1991::int) 2000 10 20 (Some 35) None
     = Inr (10, 20)"
  using propagate_position_identity [of "Some 0" "Some 35" "\<lambda>t f. real_of_int (t - f)" 1991 2000 10 20]
        propagate_position_identity [of "Some 35" None "\<lambda>t f. real_of_int (t - f)" 1991 2000 10 20]
  by simp



end
